theory Spec2Isabelle
  imports Complex_Main "HOL-Library.AList" "HOL-Library.Sublist"
begin

section \<open>Python values as they reach the monitoring engine\<close>

text \<open>
  The flight feed is decoded JSON: every field of a state vector is one of Python's
  \<^verbatim>\<open>None\<close>, \<^verbatim>\<open>bool\<close>, a number, a \<^verbatim>\<open>str\<close>, a \<^verbatim>\<open>list\<close> or a \<^verbatim>\<open>dict\<close> with string keys.
  Numbers (\<^verbatim>\<open>int\<close> and finite \<^verbatim>\<open>float\<close>) are read as the real number they denote: the
  engine only compares them and tests them against zero, and both are exact on finite
  floats. A \<^verbatim>\<open>dict\<close> is the list of its items in insertion order.
\<close>

datatype jval =
    JNull
  | JBool bool
  | JNum real
  | JStr string
  | JArr "jval list"
  | JObj "(string \<times> jval) list"

datatype py_error =
    TypeError
  | IndexError
  | KeyError
  | AttributeError
  | JSONDecodeError
  | ConnectionError
  | Timeout
  | ApiTelegramException

text \<open>Truth value testing (\<^verbatim>\<open>not x\<close>, \<^verbatim>\<open>x or y\<close>, \<^verbatim>\<open>if x\<close>).\<close>

fun py_truthy :: "jval \<Rightarrow> bool" where
  "py_truthy JNull = False"
| "py_truthy (JBool b) = b"
| "py_truthy (JNum r) = (r \<noteq> 0)"
| "py_truthy (JStr s) = (s \<noteq> [])"
| "py_truthy (JArr xs) = (xs \<noteq> [])"
| "py_truthy (JObj kvs) = (kvs \<noteq> [])"

text \<open>\<^verbatim>\<open>len(x)\<close>: defined on strings, lists and dicts, a \<^verbatim>\<open>TypeError\<close> elsewhere.\<close>

fun py_len :: "jval \<Rightarrow> py_error + nat" where
  "py_len (JStr s) = Inr (length s)"
| "py_len (JArr xs) = Inr (length xs)"
| "py_len (JObj kvs) = Inr (length kvs)"
| "py_len JNull = Inl TypeError"
| "py_len (JBool b) = Inl TypeError"
| "py_len (JNum r) = Inl TypeError"

text \<open>
  \<^verbatim>\<open>x[i]\<close> for a literal index \<open>i \<ge> 0\<close>. A list or string that is too short raises
  \<^verbatim>\<open>IndexError\<close>; a decoded JSON object has string keys only, so an integer key raises
  \<^verbatim>\<open>KeyError\<close>; the other values are not subscriptable.
\<close>

fun py_getitem :: "jval \<Rightarrow> nat \<Rightarrow> py_error + jval" where
  "py_getitem (JArr xs) i = (if i < length xs then Inr (xs ! i) else Inl IndexError)"
| "py_getitem (JStr s) i = (if i < length s then Inr (JStr [s ! i]) else Inl IndexError)"
| "py_getitem (JObj kvs) i = Inl KeyError"
| "py_getitem JNull i = Inl TypeError"
| "py_getitem (JBool b) i = Inl TypeError"
| "py_getitem (JNum r) i = Inl TypeError"

text \<open>
  Ordering against a float. \<^verbatim>\<open>bool\<close> is a subclass of \<^verbatim>\<open>int\<close> (\<^verbatim>\<open>True == 1\<close>); comparing a
  float with \<^verbatim>\<open>None\<close>, a string, a list or a dict raises \<^verbatim>\<open>TypeError\<close>.
\<close>

fun py_num :: "jval \<Rightarrow> real option" where
  "py_num (JNum r) = Some r"
| "py_num (JBool b) = Some (if b then 1 else 0)"
| "py_num JNull = None"
| "py_num (JStr s) = None"
| "py_num (JArr xs) = None"
| "py_num (JObj kvs) = None"

definition float_le :: "real \<Rightarrow> jval \<Rightarrow> py_error + bool" where
  "float_le x v = (case py_num v of None \<Rightarrow> Inl TypeError | Some y \<Rightarrow> Inr (x \<le> y))"

definition le_float :: "jval \<Rightarrow> real \<Rightarrow> py_error + bool" where
  "le_float v x = (case py_num v of None \<Rightarrow> Inl TypeError | Some y \<Rightarrow> Inr (y \<le> x))"

text \<open>
  Sequencing of statements that may raise: the first exception ends the block. The
  second function is Python's \<^verbatim>\<open>and\<close> on comparison results: the right operand is
  evaluated only when the left one is true.
\<close>

definition raising :: "py_error + 'a \<Rightarrow> ('a \<Rightarrow> py_error + 'b) \<Rightarrow> py_error + 'b" where
  "raising r f = (case r of Inl e \<Rightarrow> Inl e | Inr x \<Rightarrow> f x)"

definition py_and :: "py_error + bool \<Rightarrow> py_error + bool \<Rightarrow> py_error + bool" where
  "py_and l r = (case l of Inl e \<Rightarrow> Inl e | Inr b \<Rightarrow> if b then r else Inr False)"

section \<open>Monitoring areas and the containment test\<close>

text \<open>
  The dictionary stored in \<^verbatim>\<open>self.monitoring_areas[chat_id]\<close> by \<^verbatim>\<open>start_user_monitoring\<close>:
  its five keys are always present and the four bounds are SQLite \<^verbatim>\<open>REAL\<close>s.
\<close>

record area =
  north :: real
  south :: real
  east :: real
  west :: real
  chat_id :: int

text \<open>
  The body of the \<^verbatim>\<open>try\<close> block of \<^verbatim>\<open>is_flight_in_area\<close>, statement by statement. The
  returned conjunction is evaluated left to right with Python's short circuit:
  \<^verbatim>\<open>a <= b <= c\<close> is \<^verbatim>\<open>a <= b and b <= c\<close>.
\<close>

definition is_flight_in_area_try :: "jval \<Rightarrow> area \<Rightarrow> py_error + bool" where
  "is_flight_in_area_try flight_state a =
     raising (py_len flight_state) (\<lambda>n.
       if n < 7 then Inr False else
       raising (py_getitem flight_state 5) (\<lambda>longitude.
       raising (py_getitem flight_state 6) (\<lambda>latitude.
       raising (py_getitem flight_state 8) (\<lambda>on_ground.
         if \<not> py_truthy longitude \<or> \<not> py_truthy latitude \<or> py_truthy on_ground
         then Inr False
         else
           py_and (float_le (south a) latitude)
          (py_and (le_float latitude (north a))
          (py_and (float_le (west a) longitude)
                  (le_float longitude (east a))))))))"

text \<open>
  \<^verbatim>\<open>is_flight_in_area\<close>: the body under \<^verbatim>\<open>except Exception: return False\<close>. The result
  type still has room for an exception, so that "never raises" is a statement to prove.
\<close>

definition is_flight_in_area :: "jval \<Rightarrow> area \<Rightarrow> py_error + bool" where
  "is_flight_in_area flight_state a =
     (case is_flight_in_area_try flight_state a of Inl e \<Rightarrow> Inr False | Inr b \<Rightarrow> Inr b)"

text \<open>\<^verbatim>\<open>validate_coordinates\<close>, with its four early returns in the source's order.\<close>

definition validate_coordinates :: "real \<Rightarrow> real \<Rightarrow> real \<Rightarrow> real \<Rightarrow> bool" where
  "validate_coordinates n s e w =
     (if \<not> (- 90 \<le> n \<and> n \<le> 90 \<and> - 90 \<le> s \<and> s \<le> 90) then False
      else if \<not> (- 180 \<le> e \<and> e \<le> 180 \<and> - 180 \<le> w \<and> w \<le> 180) then False
      else if n \<le> s then False
      else if w \<ge> e then False
      else True)"

section \<open>Wall-clock time and the cooldown cache\<close>

text \<open>
  A naive \<^verbatim>\<open>datetime\<close> is a count of microseconds, and the difference of two of them is
  a \<^verbatim>\<open>timedelta\<close>, exact to the microsecond. A \<^verbatim>\<open>timedelta\<close> is stored normalised as
  days, seconds (0 to 86399) and microseconds (0 to 999999); its attribute
  \<^verbatim>\<open>.seconds\<close> is the seconds field alone, not the length of the interval.
\<close>

type_synonym datetime = int

definition timedelta_seconds :: "int \<Rightarrow> int" where
  "timedelta_seconds d = (d mod 86400000000) div 1000000"

text \<open>
  The cooldown test of \<^verbatim>\<open>monitor_flights\<close>: with a record for the key and
  \<^verbatim>\<open>(datetime.now() - self.notified_flights[key]).seconds < 1800\<close> the flight is skipped.
\<close>

definition in_cooldown :: "(string \<rightharpoonup> datetime) \<Rightarrow> string \<Rightarrow> datetime \<Rightarrow> bool" where
  "in_cooldown notified notification_key now =
     (case notified notification_key of
        None \<Rightarrow> False
      | Some timestamp \<Rightarrow> timedelta_seconds (now - timestamp) < 1800)"

text \<open>The dictionary comprehension under \<^verbatim>\<open># Cleanup old notifications\<close>.\<close>

definition cleanup_old_notifications ::
  "(string \<rightharpoonup> datetime) \<Rightarrow> datetime \<Rightarrow> (string \<rightharpoonup> datetime)" where
  "cleanup_old_notifications notified current_time =
     (\<lambda>key. case notified key of
        None \<Rightarrow> None
      | Some timestamp \<Rightarrow>
          if timedelta_seconds (current_time - timestamp) < 3600 then Some timestamp else None)"

section \<open>The world around the engine\<close>

text \<open>
  What the engine cannot decide is a parameter: the answer of the flight feed to each
  HTTP request, whether each call of \<^verbatim>\<open>bot.send_message\<close> delivers or raises, what each
  \<^verbatim>\<open>datetime.now()\<close> reads, and the text of a notification. The feed and the sink are
  indexed by the number of calls made before, so that two calls with the same
  arguments can end differently.
\<close>

datatype json_body = NotJson | Json jval

datatype http_result = Raises py_error | Response int json_body

datatype message =
    FlightNotification string
  | FlightDetected
  | MonitoringStarted area
  | MonitoringStopped
  | MonitoringNotActive
  | SetAreaFirst

datatype log_entry =
    ApiError int
  | FetchError py_error
  | FormatError py_error
  | NotificationSent int jval
  | SendFailed int py_error
  | AreaError int py_error
  | LoopError py_error
  | MonitoringStartedFor int
  | MonitoringStoppedFor int

record env =
  requests_get :: "nat \<Rightarrow> area \<Rightarrow> http_result"
  bot_send_message :: "nat \<Rightarrow> int \<Rightarrow> message \<Rightarrow> py_error option"
  datetime_now :: "nat \<Rightarrow> datetime"
  notification_text :: "jval \<Rightarrow> area \<Rightarrow> py_error + string"
  format_value :: "jval \<Rightarrow> string"

text \<open>One row of the table \<^verbatim>\<open>monitoring_areas\<close> created by \<^verbatim>\<open>init_database\<close>.\<close>

record area_row =
  area_name :: "string option"
  north_lat :: real
  south_lat :: real
  east_lon :: real
  west_lon :: real
  is_active :: int
  created_at :: int

text \<open>
  The state of the process: the two dictionaries of \<^verbatim>\<open>AeroEyeBot\<close> (the first in
  insertion order, which is the order of \<^verbatim>\<open>items()\<close>), the table keyed by \<^verbatim>\<open>chat_id\<close>,
  and a trace of what was logged, requested and sent.
\<close>

record world =
  monitoring_areas :: "(int \<times> area) list"
  notified_flights :: "string \<rightharpoonup> datetime"
  db :: "int \<rightharpoonup> area_row"
  logged :: "log_entry list"
  http_calls :: "area list"
  send_calls :: "(int \<times> message) list"
  delivered :: "(int \<times> message) list"
  clock_reads :: nat

text \<open>
  A statement either completes (\<open>None\<close>) or raises (\<open>Some e\<close>); the state it leaves is
  kept in both cases. \<open>seq\<close> runs the next statement after a completed one,
  \<open>try_except\<close> is \<^verbatim>\<open>try: body except Exception as e: handler\<close>.
\<close>

type_synonym outcome = "py_error option \<times> world"

definition seq :: "outcome \<Rightarrow> (world \<Rightarrow> outcome) \<Rightarrow> outcome" where
  "seq r f = (case r of (Some e, w) \<Rightarrow> (Some e, w) | (None, w) \<Rightarrow> f w)"

definition try_except :: "(world \<Rightarrow> outcome) \<Rightarrow> (py_error \<Rightarrow> world \<Rightarrow> outcome) \<Rightarrow> world \<Rightarrow> outcome" where
  "try_except body handler w =
     (case body w of (None, w') \<Rightarrow> (None, w') | (Some e, w') \<Rightarrow> handler e w')"

definition bot_send :: "env \<Rightarrow> int \<Rightarrow> message \<Rightarrow> world \<Rightarrow> outcome" where
  "bot_send ev cid msg w =
     (case bot_send_message ev (length (send_calls w)) cid msg of
        None \<Rightarrow> (None, w\<lparr>send_calls := send_calls w @ [(cid, msg)],
                          delivered := delivered w @ [(cid, msg)]\<rparr>)
      | Some e \<Rightarrow> (Some e, w\<lparr>send_calls := send_calls w @ [(cid, msg)]\<rparr>))"

section \<open>The flight source\<close>

text \<open>\<^verbatim>\<open>data.get('states', [])\<close>: only a dict has the method.\<close>

fun get_states :: "jval \<Rightarrow> py_error + jval" where
  "get_states (JObj kvs) =
     Inr (case map_of kvs ''states'' of None \<Rightarrow> JArr [] | Some v \<Rightarrow> v)"
| "get_states JNull = Inl AttributeError"
| "get_states (JBool b) = Inl AttributeError"
| "get_states (JNum r) = Inl AttributeError"
| "get_states (JStr s) = Inl AttributeError"
| "get_states (JArr xs) = Inl AttributeError"

text \<open>The \<^verbatim>\<open>try\<close> block of \<^verbatim>\<open>get_flights_in_area\<close>: the value returned, or the exception.\<close>

definition get_flights_in_area_try :: "env \<Rightarrow> area \<Rightarrow> world \<Rightarrow> (py_error + jval) \<times> world" where
  "get_flights_in_area_try ev a w =
     (let w1 = w\<lparr>http_calls := http_calls w @ [a]\<rparr> in
      case requests_get ev (length (http_calls w)) a of
        Raises e \<Rightarrow> (Inl e, w1)
      | Response status_code body \<Rightarrow>
          if status_code = 200 then
            (case body of
               NotJson \<Rightarrow> (Inl JSONDecodeError, w1)
             | Json data \<Rightarrow> (if py_truthy data then get_states data else Inr (JArr []), w1))
          else (Inr (JArr []), w1\<lparr>logged := logged w1 @ [ApiError status_code]\<rparr>))"

definition get_flights_in_area :: "env \<Rightarrow> area \<Rightarrow> world \<Rightarrow> (py_error + jval) \<times> world" where
  "get_flights_in_area ev a w =
     (case get_flights_in_area_try ev a w of
        (Inr flights, w1) \<Rightarrow> (Inr flights, w1)
      | (Inl e, w1) \<Rightarrow> (Inr (JArr []), w1\<lparr>logged := logged w1 @ [FetchError e]\<rparr>))"

section \<open>The monitoring loop\<close>

text \<open>
  \<^verbatim>\<open>for flight_state in flights\<close>: a list yields its elements, a string its characters, a
  dict its keys; \<^verbatim>\<open>None\<close>, a bool or a number is not iterable.
\<close>

fun py_iter :: "jval \<Rightarrow> py_error + jval list" where
  "py_iter (JArr xs) = Inr xs"
| "py_iter (JStr s) = Inr (map (\<lambda>c. JStr [c]) s)"
| "py_iter (JObj kvs) = Inr (map (\<lambda>kv. JStr (fst kv)) kvs)"
| "py_iter JNull = Inl TypeError"
| "py_iter (JBool b) = Inl TypeError"
| "py_iter (JNum r) = Inl TypeError"

text \<open>\<^verbatim>\<open>x or default\<close>.\<close>

definition py_or :: "jval \<Rightarrow> jval \<Rightarrow> jval" where
  "py_or v d = (if py_truthy v then v else d)"

text \<open>
  The key \<^verbatim>\<open>f"{chat_id}_{icao24}"\<close>: the decimal digits of the integer, an underscore, and
  the aircraft identifier (a string is inserted as it is; how Python prints any other
  value is left to the environment).
\<close>

fun str_nat :: "nat \<Rightarrow> string" where
  "str_nat n =
     (if n < 10 then [''0123456789'' ! n]
      else str_nat (n div 10) @ [''0123456789'' ! (n mod 10)])"

declare str_nat.simps [simp del]

definition str_int :: "int \<Rightarrow> string" where
  "str_int i = (if i < 0 then ''-'' @ str_nat (nat (- i)) else str_nat (nat i))"

definition notification_key :: "env \<Rightarrow> int \<Rightarrow> jval \<Rightarrow> string" where
  "notification_key ev cid icao24 =
     str_int cid @ ''_'' @ (case icao24 of JStr s \<Rightarrow> s | _ \<Rightarrow> format_value ev icao24)"

text \<open>
  \<^verbatim>\<open>format_flight_notification\<close>: the text built in its \<^verbatim>\<open>try\<close> block is the environment's;
  when the block raises, the error is logged and the short fallback text is returned.
\<close>

definition format_flight_notification :: "env \<Rightarrow> jval \<Rightarrow> area \<Rightarrow> world \<Rightarrow> message \<times> world" where
  "format_flight_notification ev flight_state a w =
     (case notification_text ev flight_state a of
        Inr text \<Rightarrow> (FlightNotification text, w)
      | Inl e \<Rightarrow> (FlightDetected, w\<lparr>logged := logged w @ [FormatError e]\<rparr>))"

text \<open>
  The cooldown filter: the clock is read only when the key has a record; the result is
  true when the flight is to be skipped.
\<close>

definition cooldown_skip :: "env \<Rightarrow> string \<Rightarrow> world \<Rightarrow> bool \<times> world" where
  "cooldown_skip ev key w =
     (if notified_flights w key = None then (False, w)
      else (in_cooldown (notified_flights w) key (datetime_now ev (clock_reads w)),
            w\<lparr>clock_reads := Suc (clock_reads w)\<rparr>))"

text \<open>The three statements of the inner \<^verbatim>\<open>try\<close> block, and its \<^verbatim>\<open>except\<close> clause.\<close>

definition send_and_record :: "env \<Rightarrow> int \<Rightarrow> message \<Rightarrow> string \<Rightarrow> jval \<Rightarrow> world \<Rightarrow> outcome" where
  "send_and_record ev cid msg key icao24 w =
     seq (bot_send ev cid msg w) (\<lambda>w1.
       (None, w1\<lparr>notified_flights := (notified_flights w1)(key \<mapsto> datetime_now ev (clock_reads w1)),
                  clock_reads := Suc (clock_reads w1),
                  logged := logged w1 @ [NotificationSent cid icao24]\<rparr>))"

definition send_failed :: "int \<Rightarrow> py_error \<Rightarrow> world \<Rightarrow> outcome" where
  "send_failed cid e w = (None, w\<lparr>logged := logged w @ [SendFailed cid e]\<rparr>)"

text \<open>
  What happens to a flight that passed the containment test: key, cooldown filter,
  message, guarded send.
\<close>

definition notify_flight :: "env \<Rightarrow> int \<Rightarrow> area \<Rightarrow> jval \<Rightarrow> world \<Rightarrow> outcome" where
  "notify_flight ev cid a flight_state w =
     (case py_getitem flight_state 0 of
        Inl e \<Rightarrow> (Some e, w)
      | Inr v \<Rightarrow>
          (let icao24 = py_or v (JStr ''unknown'');
               key = notification_key ev cid icao24;
               skip = cooldown_skip ev key w
           in if fst skip then (None, snd skip)
              else
                (let fmt = format_flight_notification ev flight_state a (snd skip)
                 in try_except (send_and_record ev cid (fst fmt) key icao24)
                               (send_failed cid) (snd fmt))))"

text \<open>The body of \<^verbatim>\<open>for flight_state in flights\<close>, and the loop.\<close>

definition process_flight :: "env \<Rightarrow> int \<Rightarrow> area \<Rightarrow> jval \<Rightarrow> world \<Rightarrow> outcome" where
  "process_flight ev cid a flight_state w =
     (case is_flight_in_area flight_state a of
        Inl e \<Rightarrow> (Some e, w)
      | Inr inside \<Rightarrow> if inside then notify_flight ev cid a flight_state w else (None, w))"

fun for_flights :: "env \<Rightarrow> int \<Rightarrow> area \<Rightarrow> jval list \<Rightarrow> world \<Rightarrow> outcome" where
  "for_flights ev cid a [] w = (None, w)"
| "for_flights ev cid a (flight_state # rest) w =
     seq (process_flight ev cid a flight_state w) (for_flights ev cid a rest)"

text \<open>The outer \<^verbatim>\<open>try\<close> block for one subscriber, and its \<^verbatim>\<open>except\<close> clause.\<close>

definition monitor_area_try :: "env \<Rightarrow> int \<Rightarrow> area \<Rightarrow> world \<Rightarrow> outcome" where
  "monitor_area_try ev cid a w =
     (case get_flights_in_area ev a w of
        (Inl e, w1) \<Rightarrow> (Some e, w1)
      | (Inr flights, w1) \<Rightarrow>
          (case py_iter flights of
             Inl e \<Rightarrow> (Some e, w1)
           | Inr states \<Rightarrow> for_flights ev cid a states w1))"

definition area_failed :: "int \<Rightarrow> py_error \<Rightarrow> world \<Rightarrow> outcome" where
  "area_failed cid e w = (None, w\<lparr>logged := logged w @ [AreaError cid e]\<rparr>)"

definition monitor_area :: "env \<Rightarrow> int \<times> area \<Rightarrow> world \<Rightarrow> outcome" where
  "monitor_area ev sub w = try_except (monitor_area_try ev (fst sub) (snd sub)) (area_failed (fst sub)) w"

text \<open>\<^verbatim>\<open>for chat_id, area in list(self.monitoring_areas.items())\<close>.\<close>

fun for_areas :: "env \<Rightarrow> (int \<times> area) list \<Rightarrow> world \<Rightarrow> outcome" where
  "for_areas ev [] w = (None, w)"
| "for_areas ev (sub # rest) w = seq (monitor_area ev sub w) (for_areas ev rest)"

text \<open>
  One turn of \<^verbatim>\<open>while True\<close> (the sleeps left out): nothing is done while no area is
  monitored; otherwise every area is visited and the cache is swept.
\<close>

definition sweep :: "env \<Rightarrow> world \<Rightarrow> outcome" where
  "sweep ev w =
     (None, w\<lparr>notified_flights :=
                 cleanup_old_notifications (notified_flights w) (datetime_now ev (clock_reads w)),
               clock_reads := Suc (clock_reads w)\<rparr>)"

definition monitor_cycle_try :: "env \<Rightarrow> world \<Rightarrow> outcome" where
  "monitor_cycle_try ev w =
     (if monitoring_areas w = [] then (None, w)
      else seq (for_areas ev (monitoring_areas w) w) (sweep ev))"

definition loop_failed :: "py_error \<Rightarrow> world \<Rightarrow> outcome" where
  "loop_failed e w = (None, w\<lparr>logged := logged w @ [LoopError e]\<rparr>)"

definition monitor_cycle :: "env \<Rightarrow> world \<Rightarrow> outcome" where
  "monitor_cycle ev w = try_except (monitor_cycle_try ev) loop_failed w"

section \<open>The area store and the start and stop commands\<close>

text \<open>
  \<^verbatim>\<open>INSERT OR REPLACE\<close> with the six listed columns: a row with the same primary key is
  deleted and the new row inserted, so each column that is not listed takes its
  default, \<^verbatim>\<open>NULL\<close> for \<^verbatim>\<open>area_name\<close> and \<^verbatim>\<open>CURRENT_TIMESTAMP\<close> (the first argument) for
  \<^verbatim>\<open>created_at\<close>.
\<close>

definition save_user_area ::
  "int \<Rightarrow> int \<Rightarrow> real \<Rightarrow> real \<Rightarrow> real \<Rightarrow> real \<Rightarrow> (int \<rightharpoonup> area_row) \<Rightarrow> (int \<rightharpoonup> area_row)" where
  "save_user_area current_timestamp cid n s e w table =
     table(cid \<mapsto> \<lparr>area_name = None, north_lat = n, south_lat = s, east_lon = e, west_lon = w,
                     is_active = 1, created_at = current_timestamp\<rparr>)"

text \<open>\<^verbatim>\<open>SELECT * FROM monitoring_areas WHERE chat_id = ? AND is_active = 1\<close>, \<^verbatim>\<open>fetchone()\<close>.\<close>

definition select_active_area :: "(int \<rightharpoonup> area_row) \<Rightarrow> int \<Rightarrow> area_row option" where
  "select_active_area table cid =
     (case table cid of
        None \<Rightarrow> None
      | Some row \<Rightarrow> if is_active row = 1 then Some row else None)"

definition start_user_monitoring :: "env \<Rightarrow> int \<Rightarrow> world \<Rightarrow> outcome" where
  "start_user_monitoring ev cid w =
     (case select_active_area (db w) cid of
        None \<Rightarrow> bot_send ev cid SetAreaFirst w
      | Some row \<Rightarrow>
          (let a = \<lparr>north = north_lat row, south = south_lat row, east = east_lon row,
                    west = west_lon row, chat_id = cid\<rparr>;
               w1 = w\<lparr>monitoring_areas := AList.update cid a (monitoring_areas w)\<rparr>
           in seq (bot_send ev cid (MonitoringStarted a) w1) (\<lambda>w2.
                (None, w2\<lparr>logged := logged w2 @ [MonitoringStartedFor cid]\<rparr>))))"

definition stop_user_monitoring :: "env \<Rightarrow> int \<Rightarrow> world \<Rightarrow> outcome" where
  "stop_user_monitoring ev cid w =
     (if cid \<in> set (map fst (monitoring_areas w)) then
        (let w1 = w\<lparr>monitoring_areas := AList.delete cid (monitoring_areas w)\<rparr>
         in seq (bot_send ev cid MonitoringStopped w1) (\<lambda>w2.
              (None, w2\<lparr>logged := logged w2 @ [MonitoringStoppedFor cid]\<rparr>)))
      else bot_send ev cid MonitoringNotActive w)"

section \<open>Concrete inputs\<close>

text \<open>
  The area of the help text (\<^verbatim>\<open>26.95, 26.87, 75.82, 75.74\<close>) for a given chat, an
  airborne aircraft inside it, and a run in which the first HTTP request fails to
  connect, the second is answered with \<^verbatim>\<open>"states": null\<close> and every later one with that
  aircraft, while every message is delivered and the clock advances by one second per
  reading.
\<close>

definition help_area :: "int \<Rightarrow> area" where
  "help_area cid = \<lparr>north = 26.95, south = 26.87, east = 75.82, west = 75.74, chat_id = cid\<rparr>"

definition airborne :: jval where
  "airborne = JArr [JStr ''800abc'', JStr ''AIC101  '', JStr ''India'', JNum 1700000000,
     JNum 1700000000, JNum 75.78, JNum 26.90, JNum 3000, JBool False, JNum 210, JNum 90,
     JNum 0]"

definition scenario_env :: env where
  "scenario_env =
     \<lparr>requests_get = (\<lambda>n a.
          if n = 0 then Raises ConnectionError
          else if n = 1 then Response 200 (Json (JObj [(''time'', JNum 1700000000), (''states'', JNull)]))
          else Response 200 (Json (JObj [(''time'', JNum 1700000000), (''states'', JArr [airborne])]))),
      bot_send_message = (\<lambda>n cid msg. None),
      datetime_now = (\<lambda>n. 1000000 * int n),
      notification_text = (\<lambda>flight_state a. Inr ''FLIGHT IN YOUR AREA''),
      format_value = (\<lambda>v. ''None'')\<rparr>"

definition failing_sink_env :: env where
  "failing_sink_env = scenario_env\<lparr>bot_send_message := (\<lambda>n cid msg. Some ApiTelegramException)\<rparr>"

definition scenario_world :: world where
  "scenario_world =
     \<lparr>monitoring_areas = [(1, help_area 1), (2, help_area 2), (3, help_area 3)],
      notified_flights = Map.empty,
      db = Map.empty(1 \<mapsto> \<lparr>area_name = None, north_lat = 26.95, south_lat = 26.87,
             east_lon = 75.82, west_lon = 75.74, is_active = 1, created_at = 1700000000\<rparr>),
      logged = [],
      http_calls = [],
      send_calls = [],
      delivered = [],
      clock_reads = 0\<rparr>"

text \<open>
  An area across the Greenwich meridian and an airborne aircraft inside it whose
  reported longitude is exactly zero.
\<close>

definition greenwich_area :: area where
  "greenwich_area = \<lparr>north = 52, south = 51, east = 1, west = - 1, chat_id = 7\<rparr>"

definition on_meridian :: jval where
  "on_meridian = JArr [JStr ''4ca1fa'', JStr ''RYR1AB  '', JStr ''Ireland'', JNum 1700000000,
     JNum 1700000000, JNum 0, JNum 51.5, JNum 10000, JBool False, JNum 230, JNum 270,
     JNum 0]"

section \<open>Validation of an area\<close>

text \<open>
  C8: for every quadruple (north, south, east, west), \<^verbatim>\<open>validate_coordinates\<close> returns true
  if and only if both latitudes lie in [-90, 90], both longitudes lie in [-180, 180],
  north is greater than south and west is less than east; violating any one of these
  conditions makes it return false.
\<close>

theorem validate_coordinates_iff:
  "validate_coordinates n s e w =
     (- 90 \<le> n \<and> n \<le> 90 \<and> - 90 \<le> s \<and> s \<le> 90 \<and>
      - 180 \<le> e \<and> e \<le> 180 \<and> - 180 \<le> w \<and> w \<le> 180 \<and> n > s \<and> w < e)"
  by (auto simp: validate_coordinates_def)

theorem validate_coordinates_help_text:
  "validate_coordinates 26.95 26.87 75.82 75.74 \<and> \<not> validate_coordinates 26.87 26.95 75.82 75.74"
  using validate_coordinates_iff [of "26.95" "26.87" "75.82" "75.74"]
    validate_coordinates_iff [of "26.87" "26.95" "75.82" "75.74"]
  by simp

section \<open>The containment test\<close>

lemma is_flight_in_area_returns: "\<exists>b. is_flight_in_area flight_state a = Inr b"
  by (cases "is_flight_in_area_try flight_state a") (auto simp add: is_flight_in_area_def)

lemma is_flight_in_area_short:
  "length xs < 9 \<Longrightarrow> is_flight_in_area (JArr xs) a = Inr False"
  by (simp add: is_flight_in_area_def is_flight_in_area_try_def raising_def split: sum.split)

lemma is_flight_in_area_null_position:
  "xs ! 5 = JNull \<or> xs ! 6 = JNull \<Longrightarrow> is_flight_in_area (JArr xs) a = Inr False"
  by (auto simp add: is_flight_in_area_def is_flight_in_area_try_def raising_def
      split: sum.split)

lemma is_flight_in_area_not_a_list:
  "(\<And>xs. flight_state \<noteq> JArr xs) \<Longrightarrow> is_flight_in_area flight_state a = Inr False"
  by (cases flight_state)
     (auto simp add: is_flight_in_area_def is_flight_in_area_try_def raising_def
        split: sum.split)


text \<open>
  Where latitude and longitude are numbers other than zero and the ground flag is
  falsy, the test is the inclusive bounding box.
\<close>

lemma is_flight_in_area_nonzero:
  assumes "9 \<le> length xs" and "xs ! 5 = JNum lon" and "xs ! 6 = JNum lat"
    and "lon \<noteq> 0" and "lat \<noteq> 0" and "\<not> py_truthy (xs ! 8)"
  shows "is_flight_in_area (JArr xs) a =
           Inr (south a \<le> lat \<and> lat \<le> north a \<and> west a \<le> lon \<and> lon \<le> east a)"
  using assms
  by (auto simp add: is_flight_in_area_def is_flight_in_area_try_def raising_def py_and_def
      float_le_def le_float_def)

text \<open>
  C1: for every area and every state vector whose position is present and whose
  \<^verbatim>\<open>on_ground\<close> flag is false, the containment test is true if and only if the latitude
  lies in [south, north] and the longitude in [west, east], boundaries included. The
  code departs from this where a coordinate is zero: \<^verbatim>\<open>not longitude\<close> is true for
  \<^verbatim>\<open>0.0\<close> as it is for \<^verbatim>\<open>None\<close>. The aircraft below is airborne at latitude 51.5 and
  longitude 0, inside the area from 51 to 52 and from -1 to 1, and the test returns
  false.
\<close>

theorem is_flight_in_area_on_meridian:
  "is_flight_in_area on_meridian greenwich_area = Inr False \<and>
   py_getitem on_meridian 5 = Inr (JNum 0) \<and>
   py_getitem on_meridian 6 = Inr (JNum 51.5) \<and>
   py_getitem on_meridian 8 = Inr (JBool False) \<and>
   south greenwich_area \<le> 51.5 \<and> 51.5 \<le> north greenwich_area \<and>
   west greenwich_area \<le> 0 \<and> 0 \<le> east greenwich_area"
  by (simp add: on_meridian_def greenwich_area_def is_flight_in_area_def
      is_flight_in_area_try_def raising_def)

text \<open>
  C10: the containment test is total over arbitrary feed records: it returns a boolean
  and never raises. Every record with fewer than 9 fields (also one of 7 or 8 fields,
  which passes the length check but has no field at index 8) and every record with a
  null longitude or latitude is dropped by returning false.
\<close>

theorem is_flight_in_area_total:
  "(\<exists>b. is_flight_in_area flight_state a = Inr b) \<and>
   (length xs < 9 \<or> xs ! 5 = JNull \<or> xs ! 6 = JNull \<longrightarrow>
      is_flight_in_area (JArr xs) a = Inr False)"
  using is_flight_in_area_returns [of flight_state a] is_flight_in_area_short [of xs a]
    is_flight_in_area_null_position [of xs a]
  by blast

theorem is_flight_in_area_total_eight_fields:
  "length (take 8 (case airborne of JArr xs \<Rightarrow> xs)) = 8 \<and>
   is_flight_in_area (JArr (take 8 (case airborne of JArr xs \<Rightarrow> xs))) (help_area 1) = Inr False \<and>
   (\<exists>b. is_flight_in_area (JStr ''abcdefghij'') (help_area 1) = Inr b)"
  using is_flight_in_area_total
    [of "JStr ''abcdefghij''" "help_area 1" "take 8 (case airborne of JArr xs \<Rightarrow> xs)"]
  by (simp add: airborne_def)

section \<open>Cooldown and sweep\<close>

text \<open>For an interval of less than a day, \<^verbatim>\<open>.seconds\<close> is the length in whole seconds.\<close>

lemma timedelta_seconds_within_a_day:
  assumes "0 \<le> d" and "d < 86400000000"
  shows "(timedelta_seconds d < n) = (d < n * 1000000)"
proof -
  from assms have "d mod 86400000000 = d" by simp
  moreover have "(d div 1000000 < n) = (d < n * 1000000)" by linarith
  ultimately show ?thesis by (simp add: timedelta_seconds_def)
qed

lemma in_cooldown_no_record: "notified key = None \<Longrightarrow> \<not> in_cooldown notified key t"
  by (simp add: in_cooldown_def)

lemma in_cooldown_within_a_day:
  "0 \<le> t - t0 \<Longrightarrow> t - t0 < 86400000000 \<Longrightarrow>
   in_cooldown (notified(key \<mapsto> t0)) key t = (t - t0 < 1800000000)"
  by (simp add: in_cooldown_def timedelta_seconds_within_a_day)

lemma cleanup_within_a_day:
  "notified key = Some t0 \<Longrightarrow> 0 \<le> t - t0 \<Longrightarrow> t - t0 < 86400000000 \<Longrightarrow>
   cleanup_old_notifications notified t key = (if t - t0 < 3600000000 then Some t0 else None)"
  by (simp add: cleanup_old_notifications_def timedelta_seconds_within_a_day)

lemma cleanup_no_record:
  "notified key = None \<Longrightarrow> cleanup_old_notifications notified t key = None"
  by (simp add: cleanup_old_notifications_def)

text \<open>
  C2: after a notification is recorded at time \<open>t0\<close>, the cooldown check suppresses a
  repeat for every later time less than 30 minutes after \<open>t0\<close> and permits one from 30
  minutes on. The code compares \<^verbatim>\<open>.seconds\<close> of the difference, which drops whole days:
  one day and ten minutes after \<open>t0\<close> (87000 seconds) it reads 600 and the flight is
  still skipped.
\<close>

theorem in_cooldown_a_day_later:
  "in_cooldown (notified(key \<mapsto> t0)) key (t0 + 87000000000) \<and>
   \<not> (t0 + 87000000000) - t0 < 1800000000"
  by (simp add: in_cooldown_def timedelta_seconds_def)

text \<open>
  C3: after the sweep at a given time no record of 60 minutes or more remains, and
  every younger record survives. The sweep compares \<^verbatim>\<open>.seconds\<close> as the cooldown check
  does: a record that is one day and ten minutes old is kept.
\<close>

theorem cleanup_keeps_a_day_old:
  "cleanup_old_notifications (notified(key \<mapsto> t0)) (t0 + 87000000000) key = Some t0 \<and>
   \<not> (t0 + 87000000000) - t0 < 3600000000"
  by (simp add: cleanup_old_notifications_def timedelta_seconds_def)

section \<open>Exceptions and traces of the loop\<close>

lemma seq_None: "seq (None, w) f = f w"
  by (simp add: seq_def)

lemma seq_Some: "seq (Some e, w) f = (Some e, w)"
  by (simp add: seq_def)

lemma seq_completes: "fst r = None \<Longrightarrow> seq r f = f (snd r)"
  by (cases r) (simp add: seq_def)

lemma try_except_completes:
  "(\<And>e w'. fst (handler e w') = None) \<Longrightarrow> fst (try_except body handler w) = None"
  by (simp add: try_except_def split: prod.split option.split)

lemma monitor_area_completes: "fst (monitor_area ev sub w) = None"
  unfolding monitor_area_def
  by (rule try_except_completes) (simp add: area_failed_def)

lemma for_areas_completes: "fst (for_areas ev subs w) = None"
  by (induction subs arbitrary: w) (simp_all add: seq_completes monitor_area_completes)

lemma for_areas_append:
  "for_areas ev (pre @ post) w = for_areas ev post (snd (for_areas ev pre w))"
  by (induction pre arbitrary: w) (simp_all add: seq_completes monitor_area_completes)

lemma monitor_cycle_idle: "monitoring_areas w = [] \<Longrightarrow> monitor_cycle ev w = (None, w)"
  by (simp add: monitor_cycle_def try_except_def monitor_cycle_try_def)

text \<open>Only the flight source issues HTTP requests, one for each call.\<close>

lemma notify_flight_http: "http_calls (snd (notify_flight ev cid a fs w)) = http_calls w"
  by (simp add: notify_flight_def Let_def cooldown_skip_def format_flight_notification_def
      try_except_def send_and_record_def send_failed_def seq_def bot_send_def
      split: sum.split option.split prod.split)

lemma process_flight_http: "http_calls (snd (process_flight ev cid a fs w)) = http_calls w"
  by (simp add: process_flight_def notify_flight_http split: sum.split)

lemma for_flights_http: "http_calls (snd (for_flights ev cid a fss w)) = http_calls w"
proof (induction fss arbitrary: w)
  case Nil
  show ?case by simp
next
  case (Cons fs fss)
  show ?case
  proof (cases "process_flight ev cid a fs w")
    case (Pair r w')
    with process_flight_http [of ev cid a fs w] have h: "http_calls w' = http_calls w" by simp
    show ?thesis using Pair h Cons.IH [of w'] by (cases r) (simp_all add: seq_def)
  qed
qed

lemma get_flights_http: "http_calls (snd (get_flights_in_area ev a w)) = http_calls w @ [a]"
  by (simp add: get_flights_in_area_def get_flights_in_area_try_def Let_def
      split: http_result.split json_body.split sum.split prod.split)

lemma monitor_area_try_http:
  "http_calls (snd (monitor_area_try ev cid a w)) = http_calls w @ [a]"
proof (cases "get_flights_in_area ev a w")
  case (Pair r w1)
  with get_flights_http [of ev a w] have h: "http_calls w1 = http_calls w @ [a]" by simp
  show ?thesis
  proof (cases r)
    case (Inl e)
    with Pair h show ?thesis by (simp add: monitor_area_try_def)
  next
    case (Inr flights)
    show ?thesis
    proof (cases "py_iter flights")
      case (Inl e)
      with Pair Inr h show ?thesis by (simp add: monitor_area_try_def)
    next
      case (Inr states)
      with Pair \<open>r = Inr flights\<close> h for_flights_http [of ev cid a states w1]
      show ?thesis by (simp add: monitor_area_try_def)
    qed
  qed
qed

lemma monitor_area_http: "http_calls (snd (monitor_area ev sub w)) = http_calls w @ [snd sub]"
proof (cases "monitor_area_try ev (fst sub) (snd sub) w")
  case (Pair r w1)
  with monitor_area_try_http [of ev "fst sub" "snd sub" w]
  have "http_calls w1 = http_calls w @ [snd sub]" by simp
  with Pair show ?thesis
    by (cases r) (simp_all add: monitor_area_def try_except_def area_failed_def)
qed

lemma for_areas_http: "http_calls (snd (for_areas ev subs w)) = http_calls w @ map snd subs"
proof (induction subs arbitrary: w)
  case Nil
  show ?case by simp
next
  case (Cons sub subs)
  show ?case
    using Cons.IH [of "snd (monitor_area ev sub w)"]
    by (simp add: seq_completes monitor_area_completes monitor_area_http)
qed

text \<open>What has been delivered stays delivered.\<close>

lemma delivered_trans:
  "prefix (delivered w) (delivered w1) \<Longrightarrow> prefix (delivered w1) (delivered w2) \<Longrightarrow>
   prefix (delivered w) (delivered w2)"
  by (auto simp: prefix_def)

lemma notify_flight_delivered:
  "prefix (delivered w) (delivered (snd (notify_flight ev cid a fs w)))"
  by (simp add: notify_flight_def Let_def cooldown_skip_def format_flight_notification_def
      try_except_def send_and_record_def send_failed_def seq_def bot_send_def
      split: sum.split option.split prod.split)

lemma process_flight_delivered:
  "prefix (delivered w) (delivered (snd (process_flight ev cid a fs w)))"
  by (simp add: process_flight_def notify_flight_delivered split: sum.split)

lemma for_flights_delivered:
  "prefix (delivered w) (delivered (snd (for_flights ev cid a fss w)))"
proof (induction fss arbitrary: w)
  case Nil
  show ?case by simp
next
  case (Cons fs fss)
  show ?case
  proof (cases "process_flight ev cid a fs w")
    case (Pair r w')
    with process_flight_delivered [of w ev cid a fs]
    have h: "prefix (delivered w) (delivered w')" by simp
    show ?thesis
    proof (cases r)
      case None
      with Pair delivered_trans [OF h Cons.IH [of w']] show ?thesis by (simp add: seq_def)
    next
      case (Some e)
      with Pair h show ?thesis by (simp add: seq_def)
    qed
  qed
qed

lemma get_flights_delivered: "delivered (snd (get_flights_in_area ev a w)) = delivered w"
  by (simp add: get_flights_in_area_def get_flights_in_area_try_def Let_def
      split: http_result.split json_body.split sum.split prod.split)

lemma monitor_area_try_delivered:
  "prefix (delivered w) (delivered (snd (monitor_area_try ev cid a w)))"
proof (cases "get_flights_in_area ev a w")
  case (Pair r w1)
  with get_flights_delivered [of ev a w] have h: "delivered w1 = delivered w" by simp
  show ?thesis
  proof (cases r)
    case (Inl e)
    with Pair h show ?thesis by (simp add: monitor_area_try_def)
  next
    case (Inr flights)
    show ?thesis
    proof (cases "py_iter flights")
      case (Inl e)
      with Pair Inr h show ?thesis by (simp add: monitor_area_try_def)
    next
      case (Inr states)
      with Pair \<open>r = Inr flights\<close> h for_flights_delivered [of w1 ev cid a states]
      show ?thesis by (simp add: monitor_area_try_def)
    qed
  qed
qed

lemma monitor_area_delivered:
  "prefix (delivered w) (delivered (snd (monitor_area ev sub w)))"
proof (cases "monitor_area_try ev (fst sub) (snd sub) w")
  case (Pair r w1)
  with monitor_area_try_delivered [of w ev "fst sub" "snd sub"]
  have "prefix (delivered w) (delivered w1)" by simp
  with Pair show ?thesis
    by (cases r) (simp_all add: monitor_area_def try_except_def area_failed_def)
qed

lemma for_areas_delivered:
  "prefix (delivered w) (delivered (snd (for_areas ev subs w)))"
proof (induction subs arbitrary: w)
  case Nil
  show ?case by simp
next
  case (Cons sub subs)
  show ?case
    using delivered_trans [OF monitor_area_delivered [of w ev sub]
        Cons.IH [of "snd (monitor_area ev sub w)"]]
    by (simp add: seq_completes monitor_area_completes)
qed

lemmas engine_defs =
  monitor_area_def try_except_def monitor_area_try_def get_flights_in_area_def
  get_flights_in_area_try_def area_failed_def seq_def process_flight_def
  is_flight_in_area_def is_flight_in_area_try_def raising_def py_and_def float_le_def
  le_float_def notify_flight_def py_or_def notification_key_def cooldown_skip_def
  format_flight_notification_def send_and_record_def send_failed_def bot_send_def
  str_int_def str_nat.simps in_cooldown_def

lemmas scenario_defs =
  scenario_world_def scenario_env_def failing_sink_env_def help_area_def airborne_def

section \<open>One flight, one notification\<close>







section \<open>One subscriber's failure and the others\<close>

text \<open>
  C5: in every cycle, an error raised while one subscriber is processed (a failed
  fetch included) does not abort the cycle. No exception leaves the loop over the
  subscribers; a subscriber after any others is processed on the state they left,
  exactly as if none of them had failed; one request is sent to the feed for every
  subscriber, in order; what its processing delivers is part of what the cycle
  delivers; and the body of the cycle raises nothing.
\<close>

theorem cycle_survives_subscriber_errors:
  "fst (for_areas ev (pre @ sub # post) w) = None \<and>
   for_areas ev (pre @ sub # post) w =
     for_areas ev post (snd (monitor_area ev sub (snd (for_areas ev pre w)))) \<and>
   http_calls (snd (for_areas ev (pre @ sub # post) w)) =
     http_calls w @ map snd (pre @ sub # post) \<and>
   prefix (delivered (snd (monitor_area ev sub (snd (for_areas ev pre w)))))
          (delivered (snd (for_areas ev (pre @ sub # post) w))) \<and>
   fst (monitor_cycle_try ev w) = None"
proof -
  have a: "fst (for_areas ev (pre @ sub # post) w) = None"
    by (rule for_areas_completes)
  have b: "for_areas ev (pre @ sub # post) w =
     for_areas ev post (snd (monitor_area ev sub (snd (for_areas ev pre w))))"
    by (simp add: for_areas_append seq_completes monitor_area_completes)
  have c: "http_calls (snd (for_areas ev (pre @ sub # post) w)) =
     http_calls w @ map snd (pre @ sub # post)"
    by (rule for_areas_http)
  have d: "prefix (delivered (snd (monitor_area ev sub (snd (for_areas ev pre w)))))
          (delivered (snd (for_areas ev (pre @ sub # post) w)))"
    unfolding b by (rule for_areas_delivered)
  have e: "fst (monitor_cycle_try ev w) = None"
    by (simp add: monitor_cycle_try_def seq_completes for_areas_completes sweep_def)
  from a b c d e show ?thesis by blast
qed

text \<open>
  The run of the concrete inputs: the fetch for subscriber 1 fails to connect, the
  answer for subscriber 2 cannot be iterated, and subscriber 3 is notified.
\<close>

theorem cycle_survives_two_failures:
  "fst (for_areas scenario_env [(1, help_area 1), (2, help_area 2), (3, help_area 3)]
      scenario_world) = None \<and>
   delivered (snd (for_areas scenario_env
      [(1, help_area 1), (2, help_area 2), (3, help_area 3)] scenario_world)) =
     [(3, FlightNotification ''FLIGHT IN YOUR AREA'')] \<and>
   logged (snd (for_areas scenario_env
      [(1, help_area 1), (2, help_area 2), (3, help_area 3)] scenario_world)) =
     [FetchError ConnectionError, AreaError 2 TypeError, NotificationSent 3 (JStr ''800abc'')] \<and>
   http_calls (snd (for_areas scenario_env
      [(1, help_area 1), (2, help_area 2), (3, help_area 3)] scenario_world)) =
     [help_area 1, help_area 2, help_area 3]"
proof -
  have run: "delivered (snd (for_areas scenario_env
      [(1, help_area 1), (2, help_area 2), (3, help_area 3)] scenario_world)) =
     [(3, FlightNotification ''FLIGHT IN YOUR AREA'')] \<and>
   logged (snd (for_areas scenario_env
      [(1, help_area 1), (2, help_area 2), (3, help_area 3)] scenario_world)) =
     [FetchError ConnectionError, AreaError 2 TypeError, NotificationSent 3 (JStr ''800abc'')]"
    by (simp add: scenario_defs engine_defs)
  have calls: "http_calls scenario_world = []"
    by (simp add: scenario_world_def)
  note general = cycle_survives_subscriber_errors
      [of scenario_env "[(1, help_area 1), (2, help_area 2)]" "(3, help_area 3)" "[]"
        scenario_world]
  have completes: "fst (for_areas scenario_env
      [(1, help_area 1), (2, help_area 2), (3, help_area 3)] scenario_world) = None"
    using general [THEN conjunct1] by (simp del: for_areas.simps)
  have requests: "http_calls (snd (for_areas scenario_env
      [(1, help_area 1), (2, help_area 2), (3, help_area 3)] scenario_world)) =
     [help_area 1, help_area 2, help_area 3]"
    using general [THEN conjunct2, THEN conjunct2, THEN conjunct1]
    by (simp add: calls del: for_areas.simps)
  from run completes requests show ?thesis by blast
qed

section \<open>An unavailable flight source\<close>

text \<open>
  C9: when the request to the flight source fails (no connection, a timeout, any
  exception of \<^verbatim>\<open>requests.get\<close>) or is answered with a status other than 200,
  \<^verbatim>\<open>get_flights_in_area\<close> returns the empty list; the error is logged, nothing is raised
  and nothing is sent to the user.
\<close>

theorem get_flights_in_area_unavailable:
  assumes "requests_get ev (length (http_calls w)) a = Raises e \<or>
           (requests_get ev (length (http_calls w)) a = Response status_code body \<and>
            status_code \<noteq> 200)"
  shows "fst (get_flights_in_area ev a w) = Inr (JArr []) \<and>
         logged (snd (get_flights_in_area ev a w)) =
           logged w @ [case requests_get ev (length (http_calls w)) a of
                         Raises x \<Rightarrow> FetchError x
                       | Response c b \<Rightarrow> ApiError c] \<and>
         send_calls (snd (get_flights_in_area ev a w)) = send_calls w \<and>
         delivered (snd (get_flights_in_area ev a w)) = delivered w"
  using assms
  by (auto simp add: get_flights_in_area_def get_flights_in_area_try_def Let_def)

theorem get_flights_in_area_timeout_and_503:
  "fst (get_flights_in_area (scenario_env\<lparr>requests_get := (\<lambda>n a. Raises Timeout)\<rparr>)
      (help_area 1) scenario_world) = Inr (JArr []) \<and>
   logged (snd (get_flights_in_area (scenario_env\<lparr>requests_get := (\<lambda>n a. Raises Timeout)\<rparr>)
      (help_area 1) scenario_world)) = [FetchError Timeout] \<and>
   fst (get_flights_in_area (scenario_env\<lparr>requests_get := (\<lambda>n a. Response 503 NotJson)\<rparr>)
      (help_area 1) scenario_world) = Inr (JArr []) \<and>
   logged (snd (get_flights_in_area (scenario_env\<lparr>requests_get := (\<lambda>n a. Response 503 NotJson)\<rparr>)
      (help_area 1) scenario_world)) = [ApiError 503]"
  using get_flights_in_area_unavailable
      [of "scenario_env\<lparr>requests_get := (\<lambda>n a. Raises Timeout)\<rparr>" scenario_world
        "help_area 1" Timeout 0 NotJson]
    get_flights_in_area_unavailable
      [of "scenario_env\<lparr>requests_get := (\<lambda>n a. Response 503 NotJson)\<rparr>" scenario_world
        "help_area 1" Timeout 503 NotJson]
  by (simp add: scenario_world_def)

section \<open>The area store\<close>

text \<open>
  C7 as the spec states it: an upsert replaces the subscriber's area, sets the active
  flag, and refreshes \<^verbatim>\<open>created_at\<close> only on the first insert. The last part fails: the
  subscriber of the concrete state has a row created at 1700000000, and after an upsert
  at 1700003600 its \<^verbatim>\<open>created_at\<close> is the later time.
\<close>

theorem save_user_area_refreshes_created_at:
  "map_option created_at (db scenario_world 1) = Some 1700000000 \<and>
   map_option created_at
     (save_user_area 1700003600 1 26.95 26.87 75.82 75.74 (db scenario_world) 1) =
       Some 1700003600 \<and>
   \<not> map_option created_at
       (save_user_area 1700003600 1 26.95 26.87 75.82 75.74 (db scenario_world) 1) =
     map_option created_at (db scenario_world 1)"
  by (simp add: save_user_area_def scenario_world_def)

text \<open>
  C7, amended: an upsert replaces any existing area of the subscriber by the new
  bounds, sets the active flag to 1, and sets \<^verbatim>\<open>created_at\<close> to the current timestamp
  (and the name to \<^verbatim>\<open>NULL\<close>) on every upsert, the first and the later ones alike; the
  rows of the other subscribers are unchanged.
\<close>

theorem save_user_area_replaces:
  "save_user_area ts cid n s e w table cid =
     Some \<lparr>area_name = None, north_lat = n, south_lat = s, east_lon = e, west_lon = w,
            is_active = 1, created_at = ts\<rparr> \<and>
   (save_user_area ts cid n s e w table) |` (- {cid}) = table |` (- {cid})"
  by (simp add: save_user_area_def)

theorem save_user_area_replaces_twice:
  "map_option is_active
     (save_user_area 1700003600 1 27 26 76 75 (db scenario_world) 1) = Some 1 \<and>
   map_option north_lat
     (save_user_area 1700003600 1 27 26 76 75 (db scenario_world) 1) = Some 27 \<and>
   map_option created_at
     (save_user_area 1700003600 1 27 26 76 75 (db scenario_world) 1) = Some 1700003600"
  using save_user_area_replaces [of 1700003600 1 27 26 76 75 "db scenario_world"]
  by simp

section \<open>Starting and stopping\<close>

lemma bot_send_keeps:
  "db (snd (bot_send ev cid msg w)) = db w"
  "monitoring_areas (snd (bot_send ev cid msg w)) = monitoring_areas w"
  by (simp_all add: bot_send_def split: option.split)

lemma seq_log_keeps:
  "db (snd (seq r (\<lambda>w2. (None, w2\<lparr>logged := logged w2 @ [entry]\<rparr>)))) = db (snd r)"
  "monitoring_areas (snd (seq r (\<lambda>w2. (None, w2\<lparr>logged := logged w2 @ [entry]\<rparr>)))) =
     monitoring_areas (snd r)"
  by (cases r; simp add: seq_def split: option.split)+

text \<open>
  C6 as the spec states it: a stop request flips the stored active flag to false. It
  does not: subscriber 1 of the concrete state is monitored and has a stored area with
  flag 1, and after the stop request the stored flag is still 1.
\<close>

theorem stop_leaves_active_flag:
  "1 \<in> set (map fst (monitoring_areas scenario_world)) \<and>
   map_option is_active (db scenario_world 1) = Some 1 \<and>
   map_option is_active (db (snd (stop_user_monitoring scenario_env 1 scenario_world)) 1) =
     Some 1 \<and>
   \<not> map_option is_active (db (snd (stop_user_monitoring scenario_env 1 scenario_world)) 1) =
     Some 0"
  by (simp add: stop_user_monitoring_def Let_def seq_def bot_send_def scenario_world_def
      scenario_env_def)

text \<open>
  C6, amended: a stop request removes the subscriber from the in-memory dictionary of
  monitored areas, and a start request enters the subscriber there with the bounds of
  the stored area when a stored area with active flag 1 exists (and changes nothing
  otherwise). Neither request changes the table: no stored area is deleted and no
  active flag is changed.
\<close>

theorem start_stop_leave_store:
  "db (snd (stop_user_monitoring ev cid w)) = db w \<and>
   db (snd (start_user_monitoring ev cid w)) = db w \<and>
   map_of (monitoring_areas (snd (stop_user_monitoring ev cid w))) =
     (map_of (monitoring_areas w))(cid := None) \<and>
   map_of (monitoring_areas (snd (start_user_monitoring ev cid w))) =
     (case select_active_area (db w) cid of
        None \<Rightarrow> map_of (monitoring_areas w)
      | Some row \<Rightarrow>
          (map_of (monitoring_areas w))(cid \<mapsto>
             \<lparr>north = north_lat row, south = south_lat row, east = east_lon row,
              west = west_lon row, chat_id = cid\<rparr>))"
proof -
  have not_there: "cid \<notin> fst ` set (monitoring_areas w) \<Longrightarrow>
      (map_of (monitoring_areas w))(cid := None) = map_of (monitoring_areas w)"
    by (simp add: map_of_eq_None_iff [symmetric] fun_upd_idem)
  have a: "db (snd (stop_user_monitoring ev cid w)) = db w"
    by (simp add: stop_user_monitoring_def Let_def seq_log_keeps bot_send_keeps)
  have b: "db (snd (start_user_monitoring ev cid w)) = db w"
    by (simp add: start_user_monitoring_def Let_def seq_log_keeps bot_send_keeps
        split: option.split)
  have c: "map_of (monitoring_areas (snd (stop_user_monitoring ev cid w))) =
     (map_of (monitoring_areas w))(cid := None)"
    using not_there
    by (simp add: stop_user_monitoring_def Let_def seq_log_keeps bot_send_keeps
        AList.delete_conv')
  have d: "map_of (monitoring_areas (snd (start_user_monitoring ev cid w))) =
     (case select_active_area (db w) cid of
        None \<Rightarrow> map_of (monitoring_areas w)
      | Some row \<Rightarrow>
          (map_of (monitoring_areas w))(cid \<mapsto>
             \<lparr>north = north_lat row, south = south_lat row, east = east_lon row,
              west = west_lon row, chat_id = cid\<rparr>))"
    by (simp add: start_user_monitoring_def Let_def seq_log_keeps bot_send_keeps
        AList.update_conv' split: option.split)
  from a b c d show ?thesis by blast
qed

theorem start_stop_leave_store_subscriber_1:
  "db (snd (stop_user_monitoring scenario_env 1 scenario_world)) = db scenario_world \<and>
   map_of (monitoring_areas (snd (stop_user_monitoring scenario_env 1 scenario_world))) 1 = None \<and>
   map_of (monitoring_areas (snd (stop_user_monitoring scenario_env 1 scenario_world))) 2 =
     Some (help_area 2) \<and>
   map_of (monitoring_areas (snd (start_user_monitoring scenario_env 1
      (snd (stop_user_monitoring scenario_env 1 scenario_world))))) 1 = Some (help_area 1) \<and>
   map_of (monitoring_areas (snd (start_user_monitoring scenario_env 4 scenario_world))) 4 = None"
proof -
  let ?stopped = "snd (stop_user_monitoring scenario_env 1 scenario_world)"
  have row: "select_active_area (db scenario_world) 1 =
      Some \<lparr>area_name = None, north_lat = 26.95, south_lat = 26.87, east_lon = 75.82,
             west_lon = 75.74, is_active = 1, created_at = 1700000000\<rparr>"
    "select_active_area (db scenario_world) 4 = None"
    by (simp_all add: select_active_area_def scenario_world_def)
  have areas: "map_of (monitoring_areas scenario_world) 2 = Some (help_area 2)"
    "map_of (monitoring_areas scenario_world) 4 = None"
    by (simp_all add: scenario_world_def)
  note stop = start_stop_leave_store [of scenario_env 1 scenario_world]
  note start = start_stop_leave_store [of scenario_env 1 ?stopped]
  note start4 = start_stop_leave_store [of scenario_env 4 scenario_world]
  have s1: "db ?stopped = db scenario_world"
    using stop [THEN conjunct1] .
  have s2: "map_of (monitoring_areas ?stopped) 1 = None"
    "map_of (monitoring_areas ?stopped) 2 = Some (help_area 2)"
    using stop [THEN conjunct2, THEN conjunct2, THEN conjunct1] areas by simp_all
  have s3: "map_of (monitoring_areas (snd (start_user_monitoring scenario_env 1 ?stopped))) 1 =
      Some (help_area 1)"
    using start [THEN conjunct2, THEN conjunct2, THEN conjunct2]
    by (simp add: s1 row help_area_def)
  have s4: "map_of (monitoring_areas (snd (start_user_monitoring scenario_env 4 scenario_world))) 4
      = None"
    using start4 [THEN conjunct2, THEN conjunct2, THEN conjunct2]
    by (simp add: row areas)
  from s1 s2 s3 s4 show ?thesis by blast
qed

end
